theory Spec2Isabelle
  imports
    Complex_Main
    "HOL-Library.Char_ord"
    "HOL-Library.List_Lexorder"
    "HOL-Library.Product_Lexorder"
begin

section \<open>The ledger document of finances.py\<close>

text \<open>
  Conventions of the embedding.
  \<^item> A Python \<open>str\<close> is a \<^typ>\<open>string\<close> holding its UTF-8 bytes. Equality and emptiness
    are those of the Python string, and the lexicographic order on bytes
    (\<open>Char_ord\<close>, \<open>List_Lexorder\<close>) is the code-point order Python compares strings with.
  \<^item> A Python \<open>float\<close> is a \<open>pyfloat\<close>: a real number or NaN. Rounding and the
    infinities are outside the model, so \<open>float(amount)\<close> is the identity.
  \<^item> The file \<open>finances.json\<close> is a \<open>ledger option\<close>: \<open>None\<close> when the file does not
    exist, otherwise the document it holds. Documents that are not of the shape
    \<open>{"transactions": [...], "limits": {...}}\<close> are outside the model.
  \<^item> The message boxes of \<open>tkinter.messagebox\<close> are recorded, in the order shown.
\<close>

subsection \<open>Floats\<close>

text \<open>
  \<open>float("nan")\<close> is a float like any other for the form and for \<open>json.dump\<close>,
  which writes it as \<open>NaN\<close>, so a ledger can hold it. A sum with NaN is NaN, and every
  comparison \<open><\<close>, \<open><=\<close> with NaN is false.
\<close>

datatype pyfloat = Finite real | NaN

instantiation pyfloat :: "{zero, one, plus, uminus, ord}"
begin

definition zero_pyfloat :: pyfloat where
  "zero_pyfloat = Finite 0"

definition one_pyfloat :: pyfloat where
  "one_pyfloat = Finite 1"

fun plus_pyfloat :: "pyfloat \<Rightarrow> pyfloat \<Rightarrow> pyfloat" where
  "plus_pyfloat (Finite a) (Finite b) = Finite (a + b)"
| "plus_pyfloat NaN y = NaN"
| "plus_pyfloat x NaN = NaN"

fun uminus_pyfloat :: "pyfloat \<Rightarrow> pyfloat" where
  "uminus_pyfloat (Finite a) = Finite (- a)"
| "uminus_pyfloat NaN = NaN"

fun less_pyfloat :: "pyfloat \<Rightarrow> pyfloat \<Rightarrow> bool" where
  "less_pyfloat (Finite a) (Finite b) = (a < b)"
| "less_pyfloat NaN y = False"
| "less_pyfloat x NaN = False"

fun less_eq_pyfloat :: "pyfloat \<Rightarrow> pyfloat \<Rightarrow> bool" where
  "less_eq_pyfloat (Finite a) (Finite b) = (a \<le> b)"
| "less_eq_pyfloat NaN y = False"
| "less_eq_pyfloat x NaN = False"

instance ..

end

instance pyfloat :: comm_monoid_add
proof (standard, goal_cases)
  case (1 x y z)
  show ?case
    by (cases x; cases y; cases z; simp)
next
  case (2 x y)
  show ?case
    by (cases x; cases y; simp)
next
  case (3 x)
  show ?case
    by (cases x; simp add: zero_pyfloat_def)
qed

instance pyfloat :: numeral ..

record transaction =
  amount :: pyfloat
  category :: string
  "note" :: string
  date :: string
  type :: string

record ledger =
  transactions :: "transaction list"
  limits :: "string \<rightharpoonup> pyfloat"

datatype message =
    Warning_limit_exceeded string pyfloat pyfloat
  | Info_transaction_added string
  | Info_limit_set string pyfloat
  | Error_date_format
  | Error_invalid_data

record world =
  data_file :: "ledger option"
  shown :: "message list"

datatype exn = ValueError | TypeError

text \<open>The two values of the field \<open>type\<close>: the Russian words for a debit
  (transliterated "spisanie") and for a credit ("nachislenie"), as UTF-8.\<close>

definition debit_label :: string where
  "debit_label =
     [CHR 0xD1, CHR 0x81, CHR 0xD0, CHR 0xBF, CHR 0xD0, CHR 0xB8, CHR 0xD1, CHR 0x81,
      CHR 0xD0, CHR 0xB0, CHR 0xD0, CHR 0xBD, CHR 0xD0, CHR 0xB8, CHR 0xD0, CHR 0xB5]"

definition credit_label :: string where
  "credit_label =
     [CHR 0xD0, CHR 0xBD, CHR 0xD0, CHR 0xB0, CHR 0xD1, CHR 0x87, CHR 0xD0, CHR 0xB8,
      CHR 0xD1, CHR 0x81, CHR 0xD0, CHR 0xBB, CHR 0xD0, CHR 0xB5, CHR 0xD0, CHR 0xBD,
      CHR 0xD0, CHR 0xB8, CHR 0xD0, CHR 0xB5]"

subsection \<open>load_data and save_data\<close>

definition load_data :: "ledger option \<Rightarrow> ledger" where
  "load_data f =
     (case f of
        Some d \<Rightarrow> d
      | None \<Rightarrow> \<lparr>transactions = [], limits = Map.empty\<rparr>)"

definition save_data :: "ledger \<Rightarrow> world \<Rightarrow> world" where
  "save_data d w = w\<lparr>data_file := Some d\<rparr>"

definition showbox :: "message \<Rightarrow> world \<Rightarrow> world" where
  "showbox m w = w\<lparr>shown := shown w @ [m]\<rparr>"

subsection \<open>add_transaction\<close>

text \<open>
  \<open>add_transaction(amount, category, note)\<close>. The argument \<open>now\<close> is the value of
  \<open>datetime.now().isoformat()\<close> read at the call.
\<close>

definition transaction_type :: "pyfloat \<Rightarrow> string" where
  "transaction_type amt = (if amt < 0 then debit_label else credit_label)"

definition total_amount_in_category :: "ledger \<Rightarrow> string \<Rightarrow> pyfloat" where
  "total_amount_in_category d cat =
     sum_list (map amount (filter (\<lambda>t. category t = cat) (transactions d)))"

definition limit_warning :: "ledger \<Rightarrow> pyfloat \<Rightarrow> string \<Rightarrow> message list" where
  "limit_warning d amt cat =
     (case limits d cat of
        None \<Rightarrow> []
      | Some category_limit \<Rightarrow>
          (let new_total_amount = total_amount_in_category d cat + amt
           in if new_total_amount > category_limit
              then [Warning_limit_exceeded cat new_total_amount category_limit]
              else []))"

definition add_transaction :: "pyfloat \<Rightarrow> string \<Rightarrow> string \<Rightarrow> string \<Rightarrow> world \<Rightarrow> world" where
  "add_transaction amt cat txt now w =
     (let data = load_data (data_file w);
          t = \<lparr>amount = amt, category = cat, note = txt, date = now,
               type = transaction_type amt\<rparr>;
          w1 = w\<lparr>shown := shown w @ limit_warning data amt cat\<rparr>;
          w2 = save_data (data\<lparr>transactions := transactions data @ [t]\<rparr>) w1
      in showbox (Info_transaction_added (transaction_type amt)) w2)"

text \<open>
  The handler of the button "add" in \<open>create_gui\<close>. \<open>amount_entry\<close> is the outcome of
  \<open>float(amount_entry.get())\<close>, \<open>None\<close> when it raises \<open>ValueError\<close>; the handler catches
  every \<open>ValueError\<close> and shows an error box.
\<close>

definition handle_add_transaction ::
  "pyfloat option \<Rightarrow> string \<Rightarrow> string \<Rightarrow> string \<Rightarrow> world \<Rightarrow> world" where
  "handle_add_transaction amount_entry cat txt now w =
     (case amount_entry of
        None \<Rightarrow> showbox Error_invalid_data w
      | Some amt \<Rightarrow>
          if cat = [] then showbox Error_invalid_data w
          else add_transaction amt cat txt now w)"

subsection \<open>calculate_balance\<close>

definition calculate_balance :: "world \<Rightarrow> pyfloat" where
  "calculate_balance w = sum_list (map amount (transactions (load_data (data_file w))))"

subsection \<open>set_limit\<close>

text \<open>The result is the exception raised, if any, and the world left behind.\<close>

definition set_limit :: "string \<Rightarrow> pyfloat \<Rightarrow> world \<Rightarrow> exn option \<times> world" where
  "set_limit cat lmt w =
     (if lmt < 0 then (Some ValueError, w)
      else
        (let data = load_data (data_file w);
             w1 = save_data (data\<lparr>limits := (limits data)(cat \<mapsto> lmt)\<rparr>) w
         in (None, showbox (Info_limit_set cat lmt) w1)))"

subsection \<open>datetime.strptime\<close>

text \<open>
  A naive \<open>datetime\<close> is the tuple (year, month, day, hour, minute, second, microsecond);
  Python compares two of them field by field in this order, which is the lexicographic
  order of \<open>Product_Lexorder\<close>.

  \<open>datetime.strptime\<close> is modelled for the two formats that finances.py uses, after
  the regular expressions of \<open>_strptime.py\<close> in CPython 3.11: each directive is a field
  of digits, the fields are separated by the literal characters of the format, the
  whole string must match, and the fields must make a valid date. \<open>None\<close> is the
  \<open>ValueError\<close> that \<open>strptime\<close> raises otherwise.

  In these expressions a class such as \<open>[0-3]\<close> holds ASCII digits only, while \<open>\d\<close>
  matches every decimal digit of Unicode, and \<open>int\<close> reads all of them. The decimal
  digits come in runs of ten, from the zero to the nine of a script; the table holds
  the code point of each zero (Unicode 14.0, the version of CPython 3.11).
\<close>

type_synonym datetime = "nat \<times> nat \<times> nat \<times> nat \<times> nat \<times> nat \<times> nat"

text \<open>The code points of a string, from its UTF-8 bytes.\<close>

fun utf8_decode :: "string \<Rightarrow> nat list" where
  "utf8_decode [] = []"
| "utf8_decode [a] = [of_char a]"
| "utf8_decode [a, b] =
     (if of_char a < (0x80 :: nat) then of_char a # utf8_decode [b]
      else [(of_char a mod 32) * 64 + of_char b mod 64])"
| "utf8_decode [a, b, c] =
     (if of_char a < (0x80 :: nat) then of_char a # utf8_decode [b, c]
      else if of_char a < (0xE0 :: nat)
      then ((of_char a mod 32) * 64 + of_char b mod 64) # utf8_decode [c]
      else [(of_char a mod 16) * 4096 + (of_char b mod 64) * 64 + of_char c mod 64])"
| "utf8_decode (a # b # c # d # r) =
     (if of_char a < (0x80 :: nat) then of_char a # utf8_decode (b # c # d # r)
      else if of_char a < (0xE0 :: nat)
      then ((of_char a mod 32) * 64 + of_char b mod 64) # utf8_decode (c # d # r)
      else if of_char a < (0xF0 :: nat)
      then ((of_char a mod 16) * 4096 + (of_char b mod 64) * 64 + of_char c mod 64)
             # utf8_decode (d # r)
      else ((of_char a mod 8) * 262144 + (of_char b mod 64) * 4096
              + (of_char c mod 64) * 64 + of_char d mod 64) # utf8_decode r)"

definition decimal_zeros :: "nat list" where
  "decimal_zeros =
     [0x30, 0x660, 0x6F0, 0x7C0, 0x966, 0x9E6, 0xA66, 0xAE6,
      0xB66, 0xBE6, 0xC66, 0xCE6, 0xD66, 0xDE6, 0xE50, 0xED0,
      0xF20, 0x1040, 0x1090, 0x17E0, 0x1810, 0x1946, 0x19D0, 0x1A80,
      0x1A90, 0x1B50, 0x1BB0, 0x1C40, 0x1C50, 0xA620, 0xA8D0, 0xA900,
      0xA9D0, 0xA9F0, 0xAA50, 0xABF0, 0xFF10, 0x104A0, 0x10D30, 0x11066,
      0x110F0, 0x11136, 0x111D0, 0x112F0, 0x11450, 0x114D0, 0x11650, 0x116C0,
      0x11730, 0x118E0, 0x11950, 0x11C50, 0x11D50, 0x11DA0, 0x16A60, 0x16AC0,
      0x16B50, 0x1D7CE, 0x1D7D8, 0x1D7E2, 0x1D7EC, 0x1D7F6, 0x1E140, 0x1E2F0,
      0x1E950, 0x1FBF0]"

text \<open>\<open>\d\<close>: the value of a decimal digit of any script.\<close>

definition decimal :: "nat \<Rightarrow> nat option" where
  "decimal c =
     (case List.find (\<lambda>z. z \<le> c \<and> c < z + 10) decimal_zeros of
        None \<Rightarrow> None
      | Some z \<Rightarrow> Some (c - z))"

text \<open>\<open>[lo-hi]\<close>: the value of an ASCII digit between \<open>lo\<close> and \<open>hi\<close>.\<close>

definition ascii_in :: "nat \<Rightarrow> nat \<Rightarrow> nat \<Rightarrow> nat option" where
  "ascii_in lo hi c = (if 48 + lo \<le> c \<and> c \<le> 48 + hi then Some (c - 48) else None)"

text \<open>Two digits one after the other, and the first alternative that matches.\<close>

definition seq2 :: "nat option \<Rightarrow> nat option \<Rightarrow> nat option" where
  "seq2 x y =
     (case x of
        None \<Rightarrow> None
      | Some u \<Rightarrow> (case y of None \<Rightarrow> None | Some v \<Rightarrow> Some (10 * u + v)))"

definition alt :: "nat option \<Rightarrow> nat option \<Rightarrow> nat option" where
  "alt x y = (case x of None \<Rightarrow> y | Some u \<Rightarrow> Some u)"

text \<open>\<open>%d\<close> is \<open>3[0-1]|[1-2]\d|0[1-9]|[1-9]| [1-9]\<close>.\<close>

definition field_d :: "string \<Rightarrow> nat option" where
  "field_d s =
     (case utf8_decode s of
        [a] \<Rightarrow> ascii_in 1 9 a
      | [a, b] \<Rightarrow>
          alt (seq2 (ascii_in 3 3 a) (ascii_in 0 1 b))
         (alt (seq2 (ascii_in 1 2 a) (decimal b))
         (alt (seq2 (ascii_in 0 0 a) (ascii_in 1 9 b))
              (if a = 32 then ascii_in 1 9 b else None)))
      | _ \<Rightarrow> None)"

text \<open>\<open>%m\<close> is \<open>1[0-2]|0[1-9]|[1-9]\<close>.\<close>

definition field_m :: "string \<Rightarrow> nat option" where
  "field_m s =
     (case utf8_decode s of
        [a] \<Rightarrow> ascii_in 1 9 a
      | [a, b] \<Rightarrow>
          alt (seq2 (ascii_in 1 1 a) (ascii_in 0 2 b))
              (seq2 (ascii_in 0 0 a) (ascii_in 1 9 b))
      | _ \<Rightarrow> None)"

text \<open>\<open>%Y\<close> is \<open>\d\d\d\d\<close>.\<close>

definition field_Y :: "string \<Rightarrow> nat option" where
  "field_Y s =
     (case utf8_decode s of
        [a, b, c, d] \<Rightarrow>
          (case seq2 (decimal a) (decimal b) of
             None \<Rightarrow> None
           | Some hi \<Rightarrow>
               (case seq2 (decimal c) (decimal d) of
                  None \<Rightarrow> None
                | Some lo \<Rightarrow> Some (100 * hi + lo)))
      | _ \<Rightarrow> None)"

text \<open>\<open>%H\<close> is \<open>2[0-3]|[0-1]\d|\d\<close>.\<close>

definition field_H :: "string \<Rightarrow> nat option" where
  "field_H s =
     (case utf8_decode s of
        [a] \<Rightarrow> decimal a
      | [a, b] \<Rightarrow>
          alt (seq2 (ascii_in 2 2 a) (ascii_in 0 3 b))
              (seq2 (ascii_in 0 1 a) (decimal b))
      | _ \<Rightarrow> None)"

text \<open>\<open>%M\<close> is \<open>[0-5]\d|\d\<close>.\<close>

definition field_M :: "string \<Rightarrow> nat option" where
  "field_M s =
     (case utf8_decode s of
        [a] \<Rightarrow> decimal a
      | [a, b] \<Rightarrow> seq2 (ascii_in 0 5 a) (decimal b)
      | _ \<Rightarrow> None)"

text \<open>\<open>%S\<close> is \<open>6[0-1]|[0-5]\d|\d\<close>.\<close>

definition field_S :: "string \<Rightarrow> nat option" where
  "field_S s =
     (case utf8_decode s of
        [a] \<Rightarrow> decimal a
      | [a, b] \<Rightarrow>
          alt (seq2 (ascii_in 6 6 a) (ascii_in 0 1 b))
              (seq2 (ascii_in 0 5 a) (decimal b))
      | _ \<Rightarrow> None)"

text \<open>\<open>%f\<close> is \<open>[0-9]{1,6}\<close>, read as microseconds after padding with zeros on
  the right.\<close>

definition field_f :: "string \<Rightarrow> nat option" where
  "field_f s =
     (let cs = utf8_decode s
      in if 1 \<le> length cs \<and> length cs \<le> 6 \<and> list_all (\<lambda>c. 48 \<le> c \<and> c \<le> 57) cs
         then Some (foldl (\<lambda>n c. 10 * n + (c - 48)) 0 (cs @ replicate (6 - length cs) 48))
         else None)"

text \<open>The constructor of \<open>datetime\<close> raises \<open>ValueError\<close> outside these ranges.\<close>

definition is_leap :: "nat \<Rightarrow> bool" where
  "is_leap y = (y mod 4 = 0 \<and> (0 < y mod 100 \<or> y mod 400 = 0))"

definition days_in_month :: "nat \<Rightarrow> nat \<Rightarrow> nat" where
  "days_in_month y m =
     (if m = 2 then (if is_leap y then 29 else 28)
      else if m = 4 \<or> m = 6 \<or> m = 9 \<or> m = 11 then 30 else 31)"

definition datetime_new ::
  "nat \<Rightarrow> nat \<Rightarrow> nat \<Rightarrow> nat \<Rightarrow> nat \<Rightarrow> nat \<Rightarrow> nat \<Rightarrow> datetime option" where
  "datetime_new y m d H M S f =
     (if 1 \<le> y \<and> y \<le> 9999 \<and> 1 \<le> m \<and> m \<le> 12 \<and> 1 \<le> d \<and> d \<le> days_in_month y m
         \<and> H \<le> 23 \<and> M \<le> 59 \<and> S \<le> 59 \<and> f \<le> 999999
      then Some (y, m, d, H, M, S, f) else None)"

text \<open>Splitting at the first separator: no field can hold a separator of its format,
  and in UTF-8 no byte of a character outside ASCII is an ASCII byte.\<close>

definition split_at :: "(char \<Rightarrow> bool) \<Rightarrow> string \<Rightarrow> (string \<times> string) option" where
  "split_at sep s =
     (case dropWhile (\<lambda>c. \<not> sep c) s of
        [] \<Rightarrow> None
      | _ # rest \<Rightarrow> Some (takeWhile (\<lambda>c. \<not> sep c) s, rest))"

text \<open>\<open>datetime.strptime(s, "%d.%m.%Y")\<close>: the time of day is midnight.\<close>

definition strptime_dmy :: "string \<Rightarrow> datetime option" where
  "strptime_dmy s =
     Option.bind (split_at (\<lambda>c. c = CHR ''.'') s) (\<lambda>(d, r).
     Option.bind (split_at (\<lambda>c. c = CHR ''.'') r) (\<lambda>(m, Y).
     Option.bind (field_d d) (\<lambda>dv.
     Option.bind (field_m m) (\<lambda>mv.
     Option.bind (field_Y Y) (\<lambda>Yv.
       datetime_new Yv mv dv 0 0 0 0)))))"

text \<open>\<open>datetime.strptime(s, "%Y-%m-%dT%H:%M:%S.%f")\<close>; the match ignores case, so the
  letter between date and time may be \<open>T\<close> or \<open>t\<close>.\<close>

definition strptime_iso :: "string \<Rightarrow> datetime option" where
  "strptime_iso s =
     Option.bind (split_at (\<lambda>c. c = CHR ''-'') s) (\<lambda>(Y, r1).
     Option.bind (split_at (\<lambda>c. c = CHR ''-'') r1) (\<lambda>(m, r2).
     Option.bind (split_at (\<lambda>c. c = CHR ''T'' \<or> c = CHR ''t'') r2) (\<lambda>(d, r3).
     Option.bind (split_at (\<lambda>c. c = CHR '':'') r3) (\<lambda>(H, r4).
     Option.bind (split_at (\<lambda>c. c = CHR '':'') r4) (\<lambda>(M, r5).
     Option.bind (split_at (\<lambda>c. c = CHR ''.'') r5) (\<lambda>(S, f).
     Option.bind (field_Y Y) (\<lambda>Yv.
     Option.bind (field_m m) (\<lambda>mv.
     Option.bind (field_d d) (\<lambda>dv.
     Option.bind (field_H H) (\<lambda>Hv.
     Option.bind (field_M M) (\<lambda>Mv.
     Option.bind (field_S S) (\<lambda>Sv.
     Option.bind (field_f f) (\<lambda>fv.
       datetime_new Yv mv dv Hv Mv Sv fv)))))))))))))"

subsection \<open>generate_report\<close>

text \<open>
  The variables \<open>start_date\<close> and \<open>end_date\<close> hold \<open>None\<close>, a string or, once
  converted, a \<open>datetime\<close>. \<open>None\<close> and the empty string are false in a condition.
\<close>

datatype pyval = PyNone | PyStr string | PyDatetime datetime

definition given :: "string option \<Rightarrow> bool" where
  "given a = (case a of None \<Rightarrow> False | Some s \<Rightarrow> s \<noteq> [])"

text \<open>Lines 106 to 109: a bound that is true is converted, any other is left as it is.\<close>

definition convert_bound :: "string option \<Rightarrow> exn + pyval" where
  "convert_bound a =
     (case a of
        None \<Rightarrow> Inr PyNone
      | Some s \<Rightarrow>
          if s = [] then Inr (PyStr s)
          else (case strptime_dmy s of
                  None \<Rightarrow> Inl ValueError
                | Some b \<Rightarrow> Inr (PyDatetime b)))"

text \<open>
  \<open>start_date is None or datetime.strptime(t["date"], ...) >= start_date\<close>, and the same
  with \<open><=\<close> for \<open>end_date\<close>. Comparing a \<open>datetime\<close> with a string raises \<open>TypeError\<close>.
\<close>

fun date_ge :: "string \<Rightarrow> pyval \<Rightarrow> exn + bool" where
  "date_ge stamp PyNone = Inr True"
| "date_ge stamp (PyStr s) =
     (case strptime_iso stamp of None \<Rightarrow> Inl ValueError | Some dt \<Rightarrow> Inl TypeError)"
| "date_ge stamp (PyDatetime b) =
     (case strptime_iso stamp of None \<Rightarrow> Inl ValueError | Some dt \<Rightarrow> Inr (dt \<ge> b))"

fun date_le :: "string \<Rightarrow> pyval \<Rightarrow> exn + bool" where
  "date_le stamp PyNone = Inr True"
| "date_le stamp (PyStr s) =
     (case strptime_iso stamp of None \<Rightarrow> Inl ValueError | Some dt \<Rightarrow> Inl TypeError)"
| "date_le stamp (PyDatetime b) =
     (case strptime_iso stamp of None \<Rightarrow> Inl ValueError | Some dt \<Rightarrow> Inr (dt \<le> b))"

definition in_range :: "pyval \<Rightarrow> pyval \<Rightarrow> transaction \<Rightarrow> exn + bool" where
  "in_range sd ed t =
     (case date_ge (date t) sd of
        Inl e \<Rightarrow> Inl e
      | Inr ok \<Rightarrow> if ok then date_le (date t) ed else Inr False)"

text \<open>The list comprehension of lines 112 to 115: the first exception ends it.\<close>

fun filter_range :: "pyval \<Rightarrow> pyval \<Rightarrow> transaction list \<Rightarrow> exn + transaction list" where
  "filter_range sd ed [] = Inr []"
| "filter_range sd ed (t # ts) =
     (case in_range sd ed t of
        Inl e \<Rightarrow> Inl e
      | Inr keep \<Rightarrow>
          (case filter_range sd ed ts of
             Inl e \<Rightarrow> Inl e
           | Inr r \<Rightarrow> Inr (if keep then t # r else r)))"

definition date_filter ::
  "string option \<Rightarrow> string option \<Rightarrow> transaction list \<Rightarrow> exn + transaction list" where
  "date_filter start_date end_date ts =
     (if given start_date \<or> given end_date then
        (case convert_bound start_date of
           Inl e \<Rightarrow> Inl e
         | Inr sd \<Rightarrow>
             (case convert_bound end_date of
                Inl e \<Rightarrow> Inl e
              | Inr ed \<Rightarrow> filter_range sd ed ts))
      else Inr ts)"

definition category_filter :: "string option \<Rightarrow> transaction list \<Rightarrow> transaction list" where
  "category_filter cat ts =
     (case cat of
        None \<Rightarrow> ts
      | Some c \<Rightarrow> if c = [] then ts else filter (\<lambda>t. category t = c) ts)"

text \<open>
  \<open>sorted(xs, key=key, reverse=reverse)\<close> is a stable sort. With \<open>reverse\<close> CPython
  reverses the list, sorts it stably in ascending order and reverses the result, so that
  elements with equal keys keep their order. The result of a stable sort does not depend
  on the algorithm, and \<^const>\<open>sort_key\<close> is one.
\<close>

definition sorted_py :: "('a \<Rightarrow> 'k::linorder) \<Rightarrow> bool \<Rightarrow> 'a list \<Rightarrow> 'a list" where
  "sorted_py key reverse xs =
     (if reverse then rev (sort_key key (rev xs)) else sort_key key xs)"

text \<open>
  On keys that are floats the comparison is \<open><\<close> of floats, which is false whenever
  one side is NaN. As long as no key is NaN the keys are linearly ordered and the
  result is the stable sort above, whatever the length of the list. With a NaN among
  the keys the result is what the algorithm of \<open>list.sort\<close> makes of the comparisons.
  CPython 3.11 (\<open>Objects/listobject.c\<close>) sorts a list of fewer than 64 elements as a
  single run: with \<open>reverse\<close> the list is reversed first; \<open>count_run\<close> takes the longest
  prefix that never descends or, if the second element is below the first, that
  strictly descends, and a descending prefix is reversed; \<open>binarysort\<close> then inserts
  each further element into the part before it, at the place that a binary search
  with \<open><\<close> finds; with \<open>reverse\<close> the result is reversed again. Longer lists are
  cut into several runs that are merged; with a NaN among the keys that is left out of
  the model, and the result is \<open>None\<close>.
\<close>

fun run_desc :: "('a \<Rightarrow> 'a \<Rightarrow> bool) \<Rightarrow> 'a \<Rightarrow> 'a list \<Rightarrow> nat" where
  "run_desc lt p [] = 0"
| "run_desc lt p (x # xs) = (if lt x p then Suc (run_desc lt x xs) else 0)"

fun run_asc :: "('a \<Rightarrow> 'a \<Rightarrow> bool) \<Rightarrow> 'a \<Rightarrow> 'a list \<Rightarrow> nat" where
  "run_asc lt p [] = 0"
| "run_asc lt p (x # xs) = (if lt x p then 0 else Suc (run_asc lt x xs))"

text \<open>The length of the first run, and whether it descends.\<close>

fun count_run :: "('a \<Rightarrow> 'a \<Rightarrow> bool) \<Rightarrow> 'a list \<Rightarrow> nat \<times> bool" where
  "count_run lt [] = (0, False)"
| "count_run lt [x] = (1, False)"
| "count_run lt (x # y # r) =
     (if lt y x then (2 + run_desc lt y r, True) else (2 + run_asc lt y r, False))"

text \<open>The binary search of \<open>binarysort\<close> between the positions \<open>l\<close> and \<open>r\<close>.\<close>

function bisect :: "('a \<Rightarrow> 'a \<Rightarrow> bool) \<Rightarrow> 'a \<Rightarrow> 'a list \<Rightarrow> nat \<Rightarrow> nat \<Rightarrow> nat" where
  "bisect lt pivot xs l r =
     (if l < r
      then (if lt pivot (xs ! (l + (r - l) div 2))
            then bisect lt pivot xs l (l + (r - l) div 2)
            else bisect lt pivot xs (l + (r - l) div 2 + 1) r)
      else l)"
  by pat_completeness auto
termination
  by (relation "measure (\<lambda>(lt, pivot, xs, l, r). r - l)") auto

text \<open>One step of \<open>binarysort\<close>: the element at \<open>start\<close> moves to its place among
  the elements before it.\<close>

definition insert_sorted :: "('a \<Rightarrow> 'a \<Rightarrow> bool) \<Rightarrow> nat \<Rightarrow> 'a list \<Rightarrow> 'a list" where
  "insert_sorted lt start xs =
     (let pivot = xs ! start;
          l = bisect lt pivot xs 0 start
      in take l xs @ pivot # drop l (take start xs) @ drop (Suc start) xs)"

definition binarysort :: "('a \<Rightarrow> 'a \<Rightarrow> bool) \<Rightarrow> nat \<Rightarrow> 'a list \<Rightarrow> 'a list" where
  "binarysort lt start xs = fold (insert_sorted lt) [max 1 start ..< length xs] xs"

definition listsort :: "('a \<Rightarrow> 'a \<Rightarrow> bool) \<Rightarrow> bool \<Rightarrow> 'a list \<Rightarrow> 'a list" where
  "listsort lt reverse xs =
     (if length xs < 2 then xs
      else
        (let ys = (if reverse then rev xs else xs);
             n = fst (count_run lt ys);
             zs = (if snd (count_run lt ys) then rev (take n ys) @ drop n ys else ys);
             sorted_run = binarysort lt n zs
         in if reverse then rev sorted_run else sorted_run))"

fun the_real :: "pyfloat \<Rightarrow> real" where
  "the_real (Finite a) = a"
| "the_real NaN = 0"

definition sorted_by_amount :: "bool \<Rightarrow> transaction list \<Rightarrow> transaction list option" where
  "sorted_by_amount reverse ts =
     (if list_all (\<lambda>t. amount t \<noteq> NaN) ts
      then Some (sorted_py (\<lambda>t. the_real (amount t)) reverse ts)
      else if length ts < 64
      then Some (listsort (\<lambda>a b. amount a < amount b) reverse ts)
      else None)"

text \<open>The values of \<open>sort_by\<close> that the code tests for: the Russian words for date
  ("data"), amount ("summa") and category ("kategoriya"), as UTF-8.\<close>

definition label_date :: string where
  "label_date = [CHR 0xD0, CHR 0xB4, CHR 0xD0, CHR 0xB0, CHR 0xD1, CHR 0x82, CHR 0xD0, CHR 0xB0]"

definition label_amount :: string where
  "label_amount =
     [CHR 0xD1, CHR 0x81, CHR 0xD1, CHR 0x83, CHR 0xD0, CHR 0xBC, CHR 0xD0, CHR 0xBC,
      CHR 0xD0, CHR 0xB0]"

definition label_category :: string where
  "label_category =
     [CHR 0xD0, CHR 0xBA, CHR 0xD0, CHR 0xB0, CHR 0xD1, CHR 0x82, CHR 0xD0, CHR 0xB5,
      CHR 0xD0, CHR 0xB3, CHR 0xD0, CHR 0xBE, CHR 0xD1, CHR 0x80, CHR 0xD0, CHR 0xB8,
      CHR 0xD1, CHR 0x8F]"

definition sort_transactions ::
  "string \<Rightarrow> bool \<Rightarrow> transaction list \<Rightarrow> transaction list option" where
  "sort_transactions sort_by reverse ts =
     (if sort_by = label_date then Some (sorted_py date reverse ts)
      else if sort_by = label_amount then sorted_by_amount reverse ts
      else if sort_by = label_category then Some (sorted_py category reverse ts)
      else Some (sorted_py note reverse ts))"

text \<open>
  The report window shows one row for each element of \<open>sorted_transactions\<close>, in that
  order; formatting a row parses its date again, which raises \<open>ValueError\<close> (not caught)
  on a date that does not parse.
\<close>

datatype report_result =
    Rows "transaction list"
  | No_report
  | Uncaught exn
  | Not_modelled

definition report_window :: "transaction list \<Rightarrow> report_result" where
  "report_window ts =
     (if list_all (\<lambda>t. strptime_iso (date t) \<noteq> None) ts then Rows ts
      else Uncaught ValueError)"

text \<open>
  \<open>generate_report(sort_by, reverse, start_date, end_date, category)\<close>. A \<open>ValueError\<close>
  of the date filter is caught: an error box is shown and the function returns without
  a report. A \<open>TypeError\<close> is not caught. The function never calls \<open>save_data\<close>.
  \<open>Not_modelled\<close> stands for the one sort that is left out above: by amount, with NaN
  among the amounts of 64 or more rows.
\<close>

definition generate_report ::
  "string \<Rightarrow> bool \<Rightarrow> string option \<Rightarrow> string option \<Rightarrow> string option \<Rightarrow> world
     \<Rightarrow> report_result \<times> world" where
  "generate_report sort_by reverse start_date end_date cat w =
     (let data = load_data (data_file w)
      in case date_filter start_date end_date (transactions data) of
           Inl ValueError \<Rightarrow> (No_report, showbox Error_date_format w)
         | Inl TypeError \<Rightarrow> (Uncaught TypeError, w)
         | Inr ts \<Rightarrow>
             (case sort_transactions sort_by reverse (category_filter cat ts) of
                None \<Rightarrow> (Not_modelled, w)
              | Some sorted_transactions \<Rightarrow> (report_window sorted_transactions, w)))"

section \<open>Sequences of calls, the invariant and example ledgers\<close>

text \<open>A sequence of calls of \<open>add_transaction\<close>, each with its arguments
  (amount, category, note, clock reading), run one after the other.\<close>

fun add_all :: "(pyfloat \<times> string \<times> string \<times> string) list \<Rightarrow> world \<Rightarrow> world" where
  "add_all [] w = w"
| "add_all ((amt, cat, txt, now) # calls) w =
     add_all calls (add_transaction amt cat txt now w)"

text \<open>The field \<open>type\<close> agrees with the sign of \<open>amount\<close>.\<close>

definition type_consistent :: "transaction \<Rightarrow> bool" where
  "type_consistent t =
     (type t = (if amount t < 0 then debit_label else credit_label))"

text \<open>The world before the first call: no file, no message box.\<close>

definition no_file :: world where
  "no_file = \<lparr>data_file = None, shown = []\<rparr>"

text \<open>A ledger with one credit of 900 in the category "food", whose limit is 1000.\<close>

definition w_food :: world where
  "w_food =
     \<lparr>data_file = Some
        \<lparr>transactions =
           [\<lparr>amount = 900, category = ''food'', note = ''a'',
             date = ''2024-06-15T12:30:00.500000'', type = credit_label\<rparr>],
         limits = [''food'' \<mapsto> 1000]\<rparr>,
      shown = []\<rparr>"

text \<open>A ledger with three transactions, stored in the order of their dates.\<close>

definition t_jan :: transaction where
  "t_jan = \<lparr>amount = 500, category = ''food'', note = ''c'',
            date = ''2024-01-01T09:00:00.000001'', type = credit_label\<rparr>"

definition t_jun :: transaction where
  "t_jun = \<lparr>amount = - 200, category = ''rent'', note = ''a'',
            date = ''2024-06-15T12:30:00.500000'', type = debit_label\<rparr>"

definition t_dec :: transaction where
  "t_dec = \<lparr>amount = 500, category = ''food'', note = ''b'',
            date = ''2024-12-31T23:59:59.999999'', type = credit_label\<rparr>"

definition w_year :: world where
  "w_year =
     \<lparr>data_file = Some \<lparr>transactions = [t_jan, t_jun, t_dec], limits = Map.empty\<rparr>,
      shown = []\<rparr>"










section \<open>Arithmetic of floats on numerals\<close>

lemma numeral_pyfloat: "(numeral n :: pyfloat) = Finite (numeral n)"
proof (induction n)
  case One
  show ?case by (simp add: one_pyfloat_def)
next
  case (Bit0 n)
  have "(numeral (num.Bit0 n) :: pyfloat) = numeral n + numeral n"
    by (rule numeral_Bit0)
  also have "\<dots> = Finite (numeral n + numeral n)"
    by (simp only: Bit0 plus_pyfloat.simps)
  also have "numeral n + numeral n = (numeral (num.Bit0 n) :: real)"
    by (rule numeral_Bit0 [symmetric])
  finally show ?case .
next
  case (Bit1 n)
  have "(numeral (num.Bit1 n) :: pyfloat) = numeral n + numeral n + 1"
    by (rule numeral_Bit1)
  also have "\<dots> = Finite (numeral n + numeral n + 1)"
    by (simp only: Bit1 plus_pyfloat.simps one_pyfloat_def)
  also have "numeral n + numeral n + 1 = (numeral (num.Bit1 n) :: real)"
    by (rule numeral_Bit1 [symmetric])
  finally show ?case .
qed

lemmas pyfloat_simps = numeral_pyfloat zero_pyfloat_def one_pyfloat_def

lemma pyfloat_negative_not_le: "(a :: pyfloat) < 0 \<Longrightarrow> \<not> 0 \<le> a"
  by (cases a) (simp_all add: zero_pyfloat_def)

section \<open>Properties of add_transaction, calculate_balance and set_limit\<close>

lemma labels_distinct: "debit_label \<noteq> credit_label"
  by (simp add: debit_label_def credit_label_def)

lemma data_file_add_transaction:
  "data_file (add_transaction amt cat txt now w) =
     Some ((load_data (data_file w))
       \<lparr>transactions := transactions (load_data (data_file w)) @
          [\<lparr>amount = amt, category = cat, note = txt, date = now,
            type = transaction_type amt\<rparr>]\<rparr>)"
  by (simp add: add_transaction_def save_data_def showbox_def Let_def)

lemma shown_add_transaction:
  "shown (add_transaction amt cat txt now w) =
     shown w @ limit_warning (load_data (data_file w)) amt cat
       @ [Info_transaction_added (transaction_type amt)]"
  by (simp add: add_transaction_def save_data_def showbox_def Let_def)

lemma transactions_add_transaction:
  "transactions (load_data (data_file (add_transaction amt cat txt now w))) =
     transactions (load_data (data_file w)) @
       [\<lparr>amount = amt, category = cat, note = txt, date = now,
         type = transaction_type amt\<rparr>]"
  by (simp add: data_file_add_transaction load_data_def)

lemma limits_add_transaction:
  "limits (load_data (data_file (add_transaction amt cat txt now w))) =
     limits (load_data (data_file w))"
  by (simp add: data_file_add_transaction load_data_def)

text \<open>
  The handler of the form rejects an empty category before it calls
  \<open>add_transaction\<close>: an error box is shown and the file is left as it was.
\<close>

lemma handle_add_transaction_empty_category:
  "handle_add_transaction amount_entry [] txt now w = showbox Error_invalid_data w"
  by (simp add: handle_add_transaction_def split: option.split)

lemma handle_add_transaction_empty_category_file:
  "data_file (handle_add_transaction amount_entry [] txt now w) = data_file w"
  by (simp add: handle_add_transaction_empty_category showbox_def)

text \<open>
  C1. Calling the add operation with an empty category is to fail, with nothing
  appended. \<open>add_transaction\<close> itself has no such check: called with the empty
  category, 100 and the note "x" when no file exists, it writes a file whose only
  transaction has the empty category, and shows the box that reports success.
\<close>

theorem add_transaction_empty_category_appended:
  "data_file (add_transaction 100 [] ''x'' ''2024-06-15T12:30:00.500000'' no_file) =
     Some \<lparr>transactions =
             [\<lparr>amount = 100, category = [], note = ''x'',
               date = ''2024-06-15T12:30:00.500000'', type = credit_label\<rparr>],
           limits = Map.empty\<rparr>
   \<and> shown (add_transaction 100 [] ''x'' ''2024-06-15T12:30:00.500000'' no_file) =
       [Info_transaction_added credit_label]"
  by (simp add: data_file_add_transaction shown_add_transaction load_data_def
      transaction_type_def no_file_def limit_warning_def pyfloat_simps)



lemma calculate_balance_add_transaction:
  "calculate_balance (add_transaction amt cat txt now w) = calculate_balance w + amt"
  by (simp add: calculate_balance_def transactions_add_transaction)

text \<open>
  C5. The balance is the sum of the amounts of all stored transactions, and after any
  sequence of calls of \<open>add_transaction\<close> it is the balance before plus the sum of
  the amounts added (exactly, amounts being real numbers here).
\<close>

theorem balance_additive:
  "calculate_balance w = sum_list (map amount (transactions (load_data (data_file w))))
   \<and> calculate_balance (add_all calls w) = calculate_balance w + sum_list (map fst calls)"
proof
  show "calculate_balance w = sum_list (map amount (transactions (load_data (data_file w))))"
    by (simp add: calculate_balance_def)
  show "calculate_balance (add_all calls w) = calculate_balance w + sum_list (map fst calls)"
  proof (induction calls arbitrary: w)
    case Nil
    show ?case by simp
  next
    case (Cons c calls)
    obtain a k n d where c: "c = (a, k, n, d)"
      by (cases c) auto
    show ?case
      by (simp add: c Cons.IH calculate_balance_add_transaction add.assoc)
  qed
qed

theorem balance_additive_witness:
  "calculate_balance (add_all [(500, ''food'', ''a'', ''2024-06-15T12:30:00.500000''),
                               (-200, ''food'', ''b'', ''2024-06-16T08:00:00.000001'')] w_food)
     = 1200"
  using balance_additive
    [of w_food "[(500, ''food'', ''a'', ''2024-06-15T12:30:00.500000''),
                 (-200, ''food'', ''b'', ''2024-06-16T08:00:00.000001'')]"]
  by (simp add: w_food_def load_data_def pyfloat_simps)

lemma type_consistent_add_transaction:
  "list_all type_consistent (transactions (load_data (data_file w)))
   \<Longrightarrow> list_all type_consistent
         (transactions (load_data (data_file (add_transaction amt cat txt now w))))"
  by (simp add: transactions_add_transaction type_consistent_def transaction_type_def)

lemma type_consistent_add_all:
  "list_all type_consistent (transactions (load_data (data_file w)))
   \<Longrightarrow> list_all type_consistent (transactions (load_data (data_file (add_all calls w))))"
proof (induction calls arbitrary: w)
  case Nil
  then show ?case by simp
next
  case (Cons c calls)
  obtain a k n d where c: "c = (a, k, n, d)"
    by (cases c) auto
  from Cons.prems have
    "list_all type_consistent
       (transactions (load_data (data_file (add_transaction a k n d w))))"
    by (rule type_consistent_add_transaction)
  then show ?case
    by (simp add: c Cons.IH)
qed

text \<open>
  C6. A call of \<open>add_transaction\<close> makes the list of transactions longer by exactly
  one; the new last entry has the given amount and the debit label if the amount is
  negative, the credit label otherwise; and every transaction of a ledger built by
  calls of \<open>add_transaction\<close>, starting with no file, has a type that agrees with the
  sign of its amount.
\<close>

theorem add_transaction_count_and_type:
  "length (transactions (load_data (data_file (add_transaction amt cat txt now w)))) =
     length (transactions (load_data (data_file w))) + 1
   \<and> type (last (transactions (load_data (data_file (add_transaction amt cat txt now w))))) =
       (if amt < 0 then debit_label else credit_label)
   \<and> amount (last (transactions (load_data (data_file (add_transaction amt cat txt now w))))) =
       amt
   \<and> list_all type_consistent (transactions (load_data (data_file (add_all calls no_file))))"
proof -
  have "list_all type_consistent (transactions (load_data (data_file no_file)))"
    by (simp add: no_file_def load_data_def)
  then have
    "list_all type_consistent (transactions (load_data (data_file (add_all calls no_file))))"
    by (rule type_consistent_add_all)
  then show ?thesis
    by (simp add: transactions_add_transaction transaction_type_def)
qed

theorem add_transaction_count_and_type_witness:
  "map type (transactions (load_data (data_file
      (add_all [(500, ''food'', ''a'', ''2024-06-15T12:30:00.500000''),
                (-200, ''food'', ''b'', ''2024-06-16T08:00:00.000001'')] no_file)))) =
     [credit_label, debit_label]
   \<and> list_all type_consistent (transactions (load_data (data_file
      (add_all [(500, ''food'', ''a'', ''2024-06-15T12:30:00.500000''),
                (-200, ''food'', ''b'', ''2024-06-16T08:00:00.000001'')] no_file))))"
  using add_transaction_count_and_type
    [of 500 "''food''" "''a''" "''2024-06-15T12:30:00.500000''" no_file
        "[(500, ''food'', ''a'', ''2024-06-15T12:30:00.500000''),
          (-200, ''food'', ''b'', ''2024-06-16T08:00:00.000001'')]"]
  by (simp add: data_file_add_transaction transaction_type_def no_file_def load_data_def
      pyfloat_simps)

text \<open>
  C7. \<open>set_limit\<close> with a negative limit raises \<open>ValueError\<close> and leaves the world,
  and so the file with its limits, as it was; with a limit that is not negative it
  returns normally, and the file afterwards holds the former document with the limit
  of the category set to the given value, whether the category had a limit or not.
\<close>

theorem set_limit_negative_rejected:
  "(lmt < 0 \<longrightarrow> set_limit cat lmt w = (Some ValueError, w))
   \<and> (0 \<le> lmt \<longrightarrow>
        fst (set_limit cat lmt w) = None
        \<and> data_file (snd (set_limit cat lmt w)) =
            Some ((load_data (data_file w))
                    \<lparr>limits := (limits (load_data (data_file w)))(cat \<mapsto> lmt)\<rparr>))"
  by (auto simp: set_limit_def save_data_def showbox_def Let_def
      dest: pyfloat_negative_not_le)

theorem set_limit_negative_rejected_witness:
  "(-1 :: pyfloat) < 0
   \<and> set_limit ''food'' (-1) w_food = (Some ValueError, w_food)
   \<and> (0 :: pyfloat) \<le> 50
   \<and> fst (set_limit ''food'' 50 w_food) = None
   \<and> limits (load_data (data_file (snd (set_limit ''food'' 50 w_food)))) ''food'' = Some 50
   \<and> limits (load_data (data_file (snd (set_limit ''rent'' 0 w_food)))) ''rent'' = Some 0"
  using set_limit_negative_rejected [of "-1" "''food''" w_food]
    set_limit_negative_rejected [of 50 "''food''" w_food]
    set_limit_negative_rejected [of 0 "''rent''" w_food]
  by (simp add: load_data_def pyfloat_simps)

text \<open>
  C10. A call of \<open>add_transaction\<close> changes the document only by one transaction
  appended at the end: the limits are the same, and the list of transactions is the
  former list, in its order, followed by the new transaction.
\<close>

theorem add_transaction_frame:
  "limits (load_data (data_file (add_transaction amt cat txt now w))) =
     limits (load_data (data_file w))
   \<and> transactions (load_data (data_file (add_transaction amt cat txt now w))) =
       transactions (load_data (data_file w)) @
         [\<lparr>amount = amt, category = cat, note = txt, date = now,
           type = transaction_type amt\<rparr>]"
  by (simp add: transactions_add_transaction limits_add_transaction)

theorem add_transaction_frame_witness:
  "limits (load_data (data_file
      (add_transaction 200 ''rent'' ''b'' ''2024-06-16T08:00:00.000001'' w_food))) ''food'' =
     Some 1000
   \<and> map category (transactions (load_data (data_file
      (add_transaction 200 ''rent'' ''b'' ''2024-06-16T08:00:00.000001'' w_food)))) =
     [''food'', ''rent'']"
  using add_transaction_frame [of 200 "''rent''" "''b''" "''2024-06-16T08:00:00.000001''" w_food]
  by (simp add: w_food_def load_data_def)

section \<open>Properties of generate_report\<close>

subsection \<open>The sort\<close>

lemma sort_labels_distinct:
  "label_amount \<noteq> label_date" "label_category \<noteq> label_date"
  "label_category \<noteq> label_amount"
  by (simp_all add: label_date_def label_amount_def label_category_def)


lemma length_sorted_py: "length (sorted_py key reverse xs) = length xs"
  by (simp add: sorted_py_def)


lemma sorted_sorted_py_ascending: "sorted (map key (sorted_py key False xs))"
  by (simp add: sorted_py_def)

lemma sorted_sorted_py_descending: "sorted (rev (map key (sorted_py key True xs)))"
  by (simp add: sorted_py_def rev_map)

text \<open>With the three Russian labels the sort is by date, amount and category; with
  any other value of \<open>sort_by\<close> it is by note.\<close>

lemma sort_transactions_by_label:
  "sort_transactions label_date reverse ts = Some (sorted_py date reverse ts)"
  "sort_transactions label_amount reverse ts = sorted_by_amount reverse ts"
  "sort_transactions label_category reverse ts = Some (sorted_py category reverse ts)"
  by (simp_all add: sort_transactions_def sort_labels_distinct)


lemma the_real_eq:
  "a \<noteq> NaN \<Longrightarrow> b \<noteq> NaN \<Longrightarrow> (the_real a = the_real b) = (a = b)"
  by (cases a; cases b) simp_all

lemma sort_transactions_fallback:
  "sort_by \<noteq> label_date \<Longrightarrow> sort_by \<noteq> label_amount \<Longrightarrow> sort_by \<noteq> label_category
   \<Longrightarrow> sort_transactions sort_by reverse ts = Some (sorted_py note reverse ts)"
  by (simp add: sort_transactions_def)

lemma sort_transactions_english_date:
  "sort_transactions ''date'' reverse ts = Some (sorted_py note reverse ts)"
  by (rule sort_transactions_fallback)
     (simp_all add: label_date_def label_amount_def label_category_def)

subsection \<open>The filters\<close>


text \<open>With both bounds converted and every stored date well formed, a transaction
  is kept when its date and time lie between the two bounds, which are midnights.\<close>

lemma filter_range_datetime:
  "list_all (\<lambda>t. strptime_iso (date t) \<noteq> None) ts \<Longrightarrow>
   filter_range (PyDatetime a) (PyDatetime b) ts =
     Inr (filter (\<lambda>t. case strptime_iso (date t) of
                         None \<Rightarrow> False
                       | Some dt \<Rightarrow> a \<le> dt \<and> dt \<le> b) ts)"
  by (induction ts) (auto simp: in_range_def)

text \<open>A time on the day of the upper bound is below the bound only at midnight.\<close>

lemma end_bound_only_midnight:
  "(((y, m, d, H, M, S, f) :: datetime) \<le> (y, m, d, 0, 0, 0, 0))
     = (H = 0 \<and> M = 0 \<and> S = 0 \<and> f = 0)"
  by auto



subsection \<open>The report\<close>


lemma generate_report_unfold:
  "fst (generate_report sort_by reverse start_date end_date cat w) =
     (case date_filter start_date end_date (transactions (load_data (data_file w))) of
        Inl ValueError \<Rightarrow> No_report
      | Inl TypeError \<Rightarrow> Uncaught TypeError
      | Inr ts \<Rightarrow>
          (case sort_transactions sort_by reverse (category_filter cat ts) of
             None \<Rightarrow> Not_modelled
           | Some sorted_transactions \<Rightarrow> report_window sorted_transactions))"
  by (simp add: generate_report_def split: sum.split exn.split option.split)


subsection \<open>The example ledger\<close>

lemmas strptime_defs =
  split_at_def field_d_def field_m_def field_Y_def field_H_def field_M_def field_S_def
  field_f_def decimal_def decimal_zeros_def ascii_in_def seq2_def alt_def
  datetime_new_def days_in_month_def is_leap_def

lemma bounds:
  "strptime_dmy ''01.03.2024'' = Some (2024, 3, 1, 0, 0, 0, 0)"
  "strptime_dmy ''15.06.2024'' = Some (2024, 6, 15, 0, 0, 0, 0)"
  "strptime_dmy ''31.12.2024'' = Some (2024, 12, 31, 0, 0, 0, 0)"
  "strptime_dmy ''2024-03-01'' = None"
  "strptime_dmy ''31.02.2024'' = None"
  by (simp_all add: strptime_dmy_def strptime_defs)

text \<open>A year written in Arabic-Indic digits (U+0662 U+0660 U+0662 U+0664) is read
  as 2024, as \<open>strptime\<close> does.\<close>

lemma strptime_dmy_arabic_indic:
  "strptime_dmy (''01.03.'' @ [CHR 0xD9, CHR 0xA2, CHR 0xD9, CHR 0xA0, CHR 0xD9, CHR 0xA2,
                               CHR 0xD9, CHR 0xA4]) = Some (2024, 3, 1, 0, 0, 0, 0)"
  by (simp add: strptime_dmy_def strptime_defs)

lemma stamps:
  "strptime_iso ''2024-01-01T09:00:00.000001'' = Some (2024, 1, 1, 9, 0, 0, 1)"
  "strptime_iso ''2024-06-15T12:30:00.500000'' = Some (2024, 6, 15, 12, 30, 0, 500000)"
  "strptime_iso ''2024-12-31T23:59:59.999999'' = Some (2024, 12, 31, 23, 59, 59, 999999)"
  by (simp_all add: strptime_iso_def strptime_defs)

lemma transactions_w_year:
  "transactions (load_data (data_file w_year)) = [t_jan, t_jun, t_dec]"
  by (simp add: w_year_def load_data_def)

lemma fields_w_year:
  "note t_jan = ''c''" "note t_jun = ''a''" "note t_dec = ''b''"
  "amount t_jan = 500" "amount t_jun = - 200" "amount t_dec = 500"
  "date t_jan = ''2024-01-01T09:00:00.000001''"
  "date t_jun = ''2024-06-15T12:30:00.500000''"
  "date t_dec = ''2024-12-31T23:59:59.999999''"
  by (simp_all add: t_jan_def t_jun_def t_dec_def)


lemma date_w_year:
  "strptime_iso (date t_jan) = Some (2024, 1, 1, 9, 0, 0, 1)"
  "strptime_iso (date t_jun) = Some (2024, 6, 15, 12, 30, 0, 500000)"
  "strptime_iso (date t_dec) = Some (2024, 12, 31, 23, 59, 59, 999999)"
  by (simp_all add: fields_w_year stamps)

lemma report_window_w_year:
  "set ts \<subseteq> {t_jan, t_jun, t_dec} \<Longrightarrow> report_window ts = Rows ts"
  by (auto simp: report_window_def list_all_iff date_w_year)

text \<open>
  The form passes the text of an entry left blank as the empty string. With one bound
  blank and the other given, the blank one is compared with the date of the first
  transaction, which raises \<open>TypeError\<close>.
\<close>

lemma report_blank_bound_type_error:
  "generate_report label_date False (Some []) (Some ''31.12.2024'') (Some []) w_year =
     (Uncaught TypeError, w_year)"
  by (simp add: generate_report_def transactions_w_year date_filter_def given_def
      convert_bound_def bounds in_range_def date_w_year)

subsection \<open>Malformed bounds\<close>

lemma convert_bound_malformed:
  "s \<noteq> [] \<Longrightarrow> strptime_dmy s = None \<Longrightarrow> convert_bound (Some s) = Inl ValueError"
  by (simp add: convert_bound_def)

lemma convert_bound_cases:
  "convert_bound a = Inl ValueError \<or> (\<exists>v. convert_bound a = Inr v)"
  by (simp add: convert_bound_def split: option.split)

text \<open>
  C8. If a bound that is given (a string that is not empty) is not a date in the
  format day.month.year, the report fails as a whole: the error box for the date
  format is shown, no rows are produced, and the file is what it was.
\<close>

theorem generate_report_malformed_bound:
  assumes "(\<exists>s. start_date = Some s \<and> s \<noteq> [] \<and> strptime_dmy s = None)
           \<or> (\<exists>s. end_date = Some s \<and> s \<noteq> [] \<and> strptime_dmy s = None)"
  shows "generate_report sort_by reverse start_date end_date cat w =
           (No_report, showbox Error_date_format w)
         \<and> data_file (snd (generate_report sort_by reverse start_date end_date cat w)) =
             data_file w"
proof -
  from assms have g: "given start_date \<or> given end_date"
    by (auto simp: given_def)
  have "date_filter start_date end_date (transactions (load_data (data_file w))) = Inl ValueError"
    using assms
  proof
    assume "\<exists>s. start_date = Some s \<and> s \<noteq> [] \<and> strptime_dmy s = None"
    then have "convert_bound start_date = Inl ValueError"
      by (auto simp: convert_bound_malformed)
    with g show ?thesis
      by (simp add: date_filter_def)
  next
    assume "\<exists>s. end_date = Some s \<and> s \<noteq> [] \<and> strptime_dmy s = None"
    then have e: "convert_bound end_date = Inl ValueError"
      by (auto simp: convert_bound_malformed)
    from convert_bound_cases [of start_date] show ?thesis
    proof
      assume "convert_bound start_date = Inl ValueError"
      with g show ?thesis
        by (simp add: date_filter_def)
    next
      assume "\<exists>v. convert_bound start_date = Inr v"
      with g e show ?thesis
        by (auto simp: date_filter_def)
    qed
  qed
  then show ?thesis
    by (simp add: generate_report_def showbox_def)
qed

theorem generate_report_malformed_bound_witness:
  "strptime_dmy ''2024-03-01'' = None
   \<and> generate_report label_date False (Some ''2024-03-01'') None None w_year =
       (No_report, showbox Error_date_format w_year)
   \<and> strptime_dmy ''31.02.2024'' = None
   \<and> fst (generate_report label_date False (Some ''01.03.2024'') (Some ''31.02.2024'') None w_year) =
       No_report"
  using bounds(4) bounds(5)
    generate_report_malformed_bound
      [of "Some ''2024-03-01''" None label_date False None w_year]
    generate_report_malformed_bound
      [of "Some ''01.03.2024''" "Some ''31.02.2024''" label_date False None w_year]
  by simp

subsection \<open>The date filter on the example ledger\<close>

text \<open>
  C3. The date filter is to keep the transactions whose calendar date lies between
  the two bounds, so that a transaction made on the day of the upper bound passes at
  any time of day. The code compares the full date and time with the bounds, which
  are midnights. On the example ledger, with the bounds 01.03.2024 and 15.06.2024 the
  transaction of 15 June 2024, 12:30, is not in the report, which is empty; as a lower
  bound the same day 15.06.2024 keeps it.
\<close>

theorem report_end_date_excludes_its_day:
  "fst (generate_report label_date False (Some ''01.03.2024'') (Some ''15.06.2024'') None w_year)
     = Rows []
   \<and> fst (generate_report label_date False (Some ''15.06.2024'') (Some ''31.12.2024'') None w_year)
     = Rows [t_jun]"
  by (simp add: generate_report_unfold transactions_w_year date_filter_def given_def
      convert_bound_def bounds in_range_def date_w_year category_filter_def
      sort_transactions_by_label sorted_py_def report_window_w_year)

subsection \<open>The sort on the example ledger\<close>

text \<open>
  C4. The report is to be sorted by the field asked for, one of date, amount,
  category and note. The docstring of \<open>generate_report\<close> gives these four English
  words as the values of \<open>sort_by\<close>, with "date" the default, but the code tests
  for the Russian words. On the example ledger, whose transactions are stored in the
  order of their dates, \<open>sort_by = "date"\<close> gives the rows in the order of their
  notes; the Russian word for date gives them in the order of their dates.
\<close>

theorem report_sort_by_date_sorts_by_note:
  "fst (generate_report ''date'' False None None None w_year) = Rows [t_jun, t_dec, t_jan]
   \<and> fst (generate_report label_date False None None None w_year) = Rows [t_jan, t_jun, t_dec]"
  by (simp add: generate_report_unfold transactions_w_year date_filter_def given_def
      category_filter_def sort_transactions_english_date sort_transactions_by_label
      sorted_py_def fields_w_year report_window_w_year)

subsection \<open>Stability of the sort by amount\<close>




subsection \<open>The sort by amount with NaN in the ledger\<close>

declare bisect.simps [simp del]

lemma bisect_left:
  "l < r \<Longrightarrow> lt pivot (xs ! (l + (r - l) div 2))
   \<Longrightarrow> bisect lt pivot xs l r = bisect lt pivot xs l (l + (r - l) div 2)"
  by (subst bisect.simps) simp

lemma bisect_right:
  "l < r \<Longrightarrow> \<not> lt pivot (xs ! (l + (r - l) div 2))
   \<Longrightarrow> bisect lt pivot xs l r = bisect lt pivot xs (l + (r - l) div 2 + 1) r"
  by (subst bisect.simps) simp

lemma bisect_done: "\<not> l < r \<Longrightarrow> bisect lt pivot xs l r = l"
  by (subst bisect.simps) simp

text \<open>On the example ledger, which has no NaN, the algorithm gives the stable sort.\<close>

lemma listsort_w_year_agrees:
  "listsort (\<lambda>a b. amount a < amount b) False [t_jan, t_jun, t_dec] =
     sorted_py (\<lambda>t. the_real (amount t)) False [t_jan, t_jun, t_dec]"
  "listsort (\<lambda>a b. amount a < amount b) True [t_jan, t_jun, t_dec] =
     sorted_py (\<lambda>t. the_real (amount t)) True [t_jan, t_jun, t_dec]"
  by (simp_all add: listsort_def binarysort_def insert_sorted_def Let_def sorted_py_def
      fields_w_year pyfloat_simps bisect_left bisect_right bisect_done)






end
